theory Spec2Isabelle
  imports Complex_Main
begin

section \<open>Channel-name sanitisation (src/utils/sanitize_validate.py)\<close>

text \<open>
  Python strings are sequences of code points. The model works on \<^typ>\<open>string\<close>, read as
  the code points 0..255 (ASCII and Latin-1): \<open>of_char c\<close> is the code point of \<open>c\<close>.
  On this range \<open>str.lower\<close> moves \<open>A..Z\<close> and the Latin-1 capitals
  (192..222 except the multiplication sign 215) up by 32 and leaves every other
  character alone, and \<open>str.strip()\<close> removes the white space characters
  9..13, 28..32, 133 and 160 from both ends.
\<close>

definition CHANNEL_TABLE_PREFIX :: string where
  "CHANNEL_TABLE_PREFIX = ''kickchat_''"

definition py_lower_char :: "char \<Rightarrow> char" where
  "py_lower_char c =
     (let n = (of_char c :: nat)
      in if (65 \<le> n \<and> n \<le> 90) \<or> (192 \<le> n \<and> n \<le> 222 \<and> n \<noteq> 215)
         then char_of (n + 32) else c)"

definition py_lower :: "string \<Rightarrow> string" where
  "py_lower s = map py_lower_char s"

definition py_isspace :: "char \<Rightarrow> bool" where
  "py_isspace c =
     (let n = (of_char c :: nat)
      in (9 \<le> n \<and> n \<le> 13) \<or> (28 \<le> n \<and> n \<le> 32) \<or> n = 133 \<or> n = 160)"

definition py_strip :: "string \<Rightarrow> string" where
  "py_strip s = rev (dropWhile py_isspace (rev (dropWhile py_isspace s)))"

text \<open>The character class \<^verbatim>\<open>[a-zA-Z0-9_]\<close> of the regular expression.\<close>

definition in_name_class :: "char \<Rightarrow> bool" where
  "in_name_class c =
     (let n = (of_char c :: nat)
      in (97 \<le> n \<and> n \<le> 122) \<or> (65 \<le> n \<and> n \<le> 90) \<or> (48 \<le> n \<and> n \<le> 57) \<or> n = 95)"

text \<open>\<^verbatim>\<open>re.sub(r"[^a-zA-Z0-9_]", "_", normalized)\<close>: every character outside
  the class is replaced, one for one.\<close>

definition re_sub_underscore :: "string \<Rightarrow> string" where
  "re_sub_underscore s = map (\<lambda>c. if in_name_class c then c else CHR ''_'') s"

definition sanitize_channel_name :: "string \<Rightarrow> string" where
  "sanitize_channel_name name =
     (let normalized = py_strip (py_lower name);
          sanitized = re_sub_underscore normalized
      in sanitized)"

definition get_channel_table_name :: "string \<Rightarrow> string" where
  "get_channel_table_name channel_name =
     (let sanitized = sanitize_channel_name channel_name
      in CHANNEL_TABLE_PREFIX @ sanitized)"

text \<open>The character class \<^verbatim>\<open>[a-z0-9_]\<close> that storage keys are meant to stay in.\<close>

definition storage_key_char :: "char \<Rightarrow> bool" where
  "storage_key_char c =
     (let n = (of_char c :: nat)
      in (97 \<le> n \<and> n \<le> 122) \<or> (48 \<le> n \<and> n \<le> 57) \<or> n = 95)"

text \<open>Sanitisation as the specification words it: lowercase the name, then turn every
  character outside \<^verbatim>\<open>[a-zA-Z0-9_]\<close> into an underscore (nothing is removed).\<close>

definition sanitize_as_specified :: "string \<Rightarrow> string" where
  "sanitize_as_specified name = re_sub_underscore (py_lower name)"


section \<open>Values and exceptions\<close>

text \<open>
  Decoded JSON, as \<^verbatim>\<open>json.loads\<close> hands it to the program: Python's \<^verbatim>\<open>None\<close>,
  booleans, numbers, strings, lists and dictionaries (an association list; \<open>map_of\<close>
  is the lookup).
\<close>

datatype json =
    JNull
  | JBool bool
  | JNum int
  | JStr string
  | JArr "json list"
  | JObj "(string \<times> json) list"

text \<open>Python truthiness, as used by \<^verbatim>\<open>if not x\<close>.\<close>

fun truthy :: "json \<Rightarrow> bool" where
  "truthy JNull = False"
| "truthy (JBool b) = b"
| "truthy (JNum n) = (n \<noteq> 0)"
| "truthy (JStr s) = (s \<noteq> [])"
| "truthy (JArr xs) = (xs \<noteq> [])"
| "truthy (JObj kvs) = (kvs \<noteq> [])"

text \<open>\<^verbatim>\<open>d.get(k, default)\<close> on a dictionary.\<close>

definition dict_get :: "(string \<times> json) list \<Rightarrow> string \<Rightarrow> json \<Rightarrow> json" where
  "dict_get kvs k dflt = (case map_of kvs k of None \<Rightarrow> dflt | Some v \<Rightarrow> v)"

text \<open>\<^verbatim>\<open>websockets.Close(code, reason)\<close>, a close frame.\<close>

datatype close_frame = Close (close_code: int) (close_reason: string)

text \<open>
  The exceptions that travel through the listener and the supervisor.
  \<open>ConnectionClosed rcvd sent\<close> is \<^verbatim>\<open>websockets.exceptions.ConnectionClosed\<close> with the
  close frame received from the peer and the close frame sent to it.
  \<open>CancelledError\<close> derives from \<^verbatim>\<open>BaseException\<close>: no \<^verbatim>\<open>except Exception\<close> catches it.
  Every other constructor is an \<^verbatim>\<open>Exception\<close>.
\<close>

datatype exn =
    ConnectionClosed "close_frame option" "close_frame option"
  | TimeoutError
  | JSONDecodeError
  | AttributeError
  | TypeError
  | ValueError
  | OtherException string
  | CancelledError

section \<open>Event names (config.py)\<close>

text \<open>The raw string \<^verbatim>\<open>r"App\Events\<name>"\<close>; 0x5C is the backslash.\<close>

definition app_event :: "string \<Rightarrow> string" where
  "app_event n = ''App'' @ [CHR 0x5C] @ ''Events'' @ [CHR 0x5C] @ n"

definition CHAT_MESSAGE_EVENT :: string where
  "CHAT_MESSAGE_EVENT = app_event ''ChatMessageEvent''"
definition SUBSCRIPTION_EVENT :: string where
  "SUBSCRIPTION_EVENT = app_event ''SubscriptionEvent''"
definition USER_BANNED_EVENT :: string where
  "USER_BANNED_EVENT = app_event ''UserBannedEvent''"
definition USER_UNBANNED_EVENT :: string where
  "USER_UNBANNED_EVENT = app_event ''UserUnbannedEvent''"
definition MESSAGE_DELETED_EVENT :: string where
  "MESSAGE_DELETED_EVENT = app_event ''MessageDeletedEvent''"
definition PINNED_MESSAGE_CREATED_EVENT :: string where
  "PINNED_MESSAGE_CREATED_EVENT = app_event ''PinnedMessageCreatedEvent''"
definition CHAT_MESSAGE_SENT_EVENT :: string where
  "CHAT_MESSAGE_SENT_EVENT = app_event ''ChatMessageSentEvent''"
definition CHATROOM_UPDATED_EVENT :: string where
  "CHATROOM_UPDATED_EVENT = app_event ''ChatroomUpdatedEvent''"
definition STREAM_HOST_EVENT :: string where
  "STREAM_HOST_EVENT = app_event ''StreamHostEvent''"
definition PINNED_MESSAGE_DELETED_EVENT :: string where
  "PINNED_MESSAGE_DELETED_EVENT = app_event ''PinnedMessageDeletedEvent''"
definition CHATROOM_CLEAR_EVENT :: string where
  "CHATROOM_CLEAR_EVENT = app_event ''ChatroomClearEvent''"
definition POLL_UPDATE_EVENT :: string where
  "POLL_UPDATE_EVENT = app_event ''PollUpdateEvent''"
definition POLL_DELETE_EVENT :: string where
  "POLL_DELETE_EVENT = app_event ''PollDeleteEvent''"
definition PUSHER_CONNECTION_ESTABLISHED_EVENT :: string where
  "PUSHER_CONNECTION_ESTABLISHED_EVENT = ''pusher:connection_established''"
definition PUSHER_INTERNAL_SUBSCRIPTION_SUCCEEDED_EVENT :: string where
  "PUSHER_INTERNAL_SUBSCRIPTION_SUCCEEDED_EVENT = ''pusher_internal:subscription_succeeded''"

definition HANDLED_EVENTS :: "string list" where
  "HANDLED_EVENTS =
     [CHAT_MESSAGE_EVENT, SUBSCRIPTION_EVENT, USER_BANNED_EVENT, USER_UNBANNED_EVENT,
      MESSAGE_DELETED_EVENT, PINNED_MESSAGE_CREATED_EVENT, CHAT_MESSAGE_SENT_EVENT,
      CHATROOM_UPDATED_EVENT, STREAM_HOST_EVENT, PINNED_MESSAGE_DELETED_EVENT,
      CHATROOM_CLEAR_EVENT]"

definition IGNORED_EVENTS :: "string list" where
  "IGNORED_EVENTS =
     [PUSHER_CONNECTION_ESTABLISHED_EVENT, PUSHER_INTERNAL_SUBSCRIPTION_SUCCEEDED_EVENT,
      POLL_UPDATE_EVENT, POLL_DELETE_EVENT]"

definition PING_INTERVAL_MINUTES :: int where
  "PING_INTERVAL_MINUTES = 60"

section \<open>The message classifier (src/kick_chat_listener.py)\<close>

datatype KickEvent = KickEvent (event: string) (data: json)

text \<open>
  \<^verbatim>\<open>event_type in EVENTS\<close> for a set of strings: membership hashes the left operand,
  so a list or a dictionary raises \<^verbatim>\<open>TypeError\<close>; a string is looked up; \<^verbatim>\<open>None\<close>,
  a boolean or a number is hashable and equal to no string.
\<close>

fun py_in_events :: "json \<Rightarrow> string list \<Rightarrow> exn + bool" where
  "py_in_events (JStr s) evs = Inr (s \<in> set evs)"
| "py_in_events (JArr xs) evs = Inl TypeError"
| "py_in_events (JObj kvs) evs = Inl TypeError"
| "py_in_events v evs = Inr False"

text \<open>
  \<^verbatim>\<open>json.loads\<close> belongs to Python's library; the model takes it as the parameter
  \<open>loads\<close>, with \<open>None\<close> for a \<^verbatim>\<open>JSONDecodeError\<close>.
\<close>

definition parse_event :: "(string \<Rightarrow> json option) \<Rightarrow> (string \<times> json) list \<Rightarrow> exn + KickEvent" where
  "parse_event loads message =
     (case dict_get message ''event'' JNull of
        JStr event_type \<Rightarrow>
          (case dict_get message ''data'' (JStr ''{}'') of
             JStr data_str \<Rightarrow>
               (case loads data_str of
                  None \<Rightarrow> Inl JSONDecodeError
                | Some parsed_data \<Rightarrow> Inr (KickEvent event_type parsed_data))
           | parsed_data \<Rightarrow> Inr (KickEvent event_type parsed_data))
      | _ \<Rightarrow> Inl ValueError)"

text \<open>
  \<open>handle_websocket_message\<close> returns what the coroutine returns or raises, and the
  overflow file (\<^verbatim>\<open>unhandled_messages.txt\<close>) after the call: one appended entry is one
  line \<^verbatim>\<open>json.dumps(message) + "\n"\<close>. A message that is not a dictionary has no
  \<^verbatim>\<open>get\<close>: \<^verbatim>\<open>AttributeError\<close>.
\<close>

definition handle_websocket_message ::
  "(string \<Rightarrow> json option) \<Rightarrow> json \<Rightarrow> json list \<Rightarrow> (exn + KickEvent option) \<times> json list" where
  "handle_websocket_message loads message overflow =
     (case message of
        JObj kvs \<Rightarrow>
          (let event_type = dict_get kvs ''event'' JNull
           in case py_in_events event_type IGNORED_EVENTS of
                Inl e \<Rightarrow> (Inl e, overflow)
              | Inr True \<Rightarrow> (Inr None, overflow)
              | Inr False \<Rightarrow>
                  (case py_in_events event_type HANDLED_EVENTS of
                     Inl e \<Rightarrow> (Inl e, overflow)
                   | Inr True \<Rightarrow>
                       (case parse_event loads kvs of
                          Inl e \<Rightarrow> (Inl e, overflow)
                        | Inr k \<Rightarrow> (Inr (Some k), overflow))
                   | Inr False \<Rightarrow> (Inr None, overflow @ [message])))
      | _ \<Rightarrow> (Inl AttributeError, overflow))"

section \<open>Channel lookup (kick_api.py)\<close>

text \<open>
  What \<^verbatim>\<open>curl_cffi.get\<close> does: a response with a status code and a body
  (\<open>None\<close> when the body is not JSON), a timeout, or any other exception.
\<close>

datatype http_outcome =
    HttpResponse int "json option"
  | HttpTimeout
  | HttpRaises exn

text \<open>\<^verbatim>\<open>ApiResult\<close>; the \<^verbatim>\<open>error\<close> text only feeds log lines and is left out.\<close>

record ApiResult =
  success :: bool
  api_data :: "json option"
  status_code :: "int option"

text \<open>
  \<open>_handle_channel_response\<close>. With status 200 the body is decoded by
  \<^verbatim>\<open>response.json()\<close>, which raises the standard \<^verbatim>\<open>json.JSONDecodeError\<close> on a body that
  is not JSON. The handler at line 44 names \<^verbatim>\<open>curl_cffi.exceptions.JSONDecodeError\<close>, a
  subclass of it, and so does not catch the exception: it leaves the function.
\<close>

definition handle_channel_response :: "int \<Rightarrow> json option \<Rightarrow> exn + ApiResult" where
  "handle_channel_response status body =
     (if status = 200 then
        (case body of
           Some d \<Rightarrow> Inr \<lparr>success = True, api_data = Some d, status_code = Some 200\<rparr>
         | None \<Rightarrow> Inl JSONDecodeError)
      else if status = 403
        then Inr \<lparr>success = False, api_data = None, status_code = Some 403\<rparr>
      else if status = 404
        then Inr \<lparr>success = False, api_data = None, status_code = Some 404\<rparr>
      else Inr \<lparr>success = False, api_data = None, status_code = Some status\<rparr>)"

text \<open>\<open>get_channel_info\<close> catches the timeout of the request and nothing else.\<close>

definition get_channel_info :: "http_outcome \<Rightarrow> exn + ApiResult" where
  "get_channel_info h =
     (case h of
        HttpResponse status body \<Rightarrow> handle_channel_response status body
      | HttpTimeout \<Rightarrow> Inr \<lparr>success = False, api_data = None, status_code = None\<rparr>
      | HttpRaises e \<Rightarrow> Inl e)"

text \<open>
  \<open>get_chatroom_id\<close>: \<open>Inr JNull\<close> is the returned \<^verbatim>\<open>None\<close>. With a dictionary as data,
  \<^verbatim>\<open>data.get("chatroom", {}).get("id")\<close> raises \<^verbatim>\<open>AttributeError\<close> when the value
  under \<^verbatim>\<open>"chatroom"\<close> is not a dictionary.
\<close>

definition get_chatroom_id :: "http_outcome \<Rightarrow> exn + json" where
  "get_chatroom_id h =
     (case get_channel_info h of
        Inl e \<Rightarrow> Inl e
      | Inr channel_info_result \<Rightarrow>
          (case api_data channel_info_result of
             None \<Rightarrow> Inr JNull
           | Some d \<Rightarrow>
               if \<not> success channel_info_result \<or> \<not> truthy d then Inr JNull
               else (case d of
                       JObj kvs \<Rightarrow>
                         (case dict_get kvs ''chatroom'' (JObj []) of
                            JObj room \<Rightarrow> Inr (dict_get room ''id'' JNull)
                          | _ \<Rightarrow> Inl AttributeError)
                     | _ \<Rightarrow> Inr JNull)))"


section \<open>The session protocol loop (src/kick_chat_listener.py, listen_to_chat)\<close>

text \<open>
  What one session has done so far. \<open>last_ping_time\<close> and
  \<open>consecutive_ping_failures\<close> are the locals of \<open>listen_to_chat\<close>; the other fields
  record its effects on the outside: calls of \<^verbatim>\<open>websockets.connect\<close>, the chat room
  ids subscribed to, the lines appended to the overflow file, the calls of
  \<^verbatim>\<open>storage.store_event\<close> in order, and the number of received messages that went
  through the whole loop body.
\<close>

record session =
  last_ping_time :: int
  consecutive_ping_failures :: nat
  connect_calls :: nat
  subscriptions :: "json list"
  overflow_log :: "json list"
  store_calls :: "(string \<times> KickEvent) list"
  messages_processed :: nat

text \<open>
  The environment of one loop iteration: whether the stop event is set when the
  \<^verbatim>\<open>while\<close> condition is read, the clock (\<^verbatim>\<open>time.time()\<close>, in seconds), what the ping
  does if one is sent, and what \<^verbatim>\<open>ws.recv()\<close> does within its one second.
\<close>

datatype ping_outcome = Pong | PingTimeout | PingRaises exn

datatype recv_outcome = RecvTimeout | RecvMessage string | RecvRaises exn

record tick =
  stop_is_set :: bool
  current_time :: int
  ping_result :: ping_outcome
  recv_result :: recv_outcome

text \<open>
  The environment of one call of \<open>listen_to_chat\<close>: the HTTP lookup, the clock at the
  start, what \<^verbatim>\<open>websockets.connect\<close> and the subscribe \<^verbatim>\<open>ws.send\<close> raise (if anything),
  and the loop iterations observed.
\<close>

record attempt_env =
  http :: http_outcome
  start_time :: int
  connect_raises :: "exn option"
  subscribe_raises :: "exn option"
  ticks :: "tick list"

text \<open>How a call ends; \<open>Unfinished\<close> means the observed iterations ran out while the
  loop was still running.\<close>

datatype outcome = Returned | Raised exn | Unfinished

definition ping_interval :: int where
  "ping_interval = PING_INTERVAL_MINUTES * 20"

definition max_ping_failures :: nat where
  "max_ping_failures = 3"

text \<open>Lines 67 to 99: the keepalive. The result is the exception that leaves the
  inner \<^verbatim>\<open>try\<close>, if any, and the locals.\<close>

definition keepalive :: "tick \<Rightarrow> session \<Rightarrow> exn option \<times> session" where
  "keepalive t s =
     (if current_time t - last_ping_time s > ping_interval then
        (case ping_result t of
           Pong \<Rightarrow>
             (None, s\<lparr>last_ping_time := current_time t, consecutive_ping_failures := 0\<rparr>)
         | PingRaises (ConnectionClosed r c) \<Rightarrow> (Some (ConnectionClosed r c), s)
         | PingRaises TimeoutError \<Rightarrow>
             (let s1 = s\<lparr>consecutive_ping_failures := consecutive_ping_failures s + 1\<rparr>
              in if consecutive_ping_failures s1 \<ge> max_ping_failures
                 then (Some (ConnectionClosed None (Some (Close 1011 ''Ping timeout''))), s1)
                 else (None, s1\<lparr>last_ping_time := current_time t\<rparr>))
         | PingTimeout \<Rightarrow>
             (let s1 = s\<lparr>consecutive_ping_failures := consecutive_ping_failures s + 1\<rparr>
              in if consecutive_ping_failures s1 \<ge> max_ping_failures
                 then (Some (ConnectionClosed None (Some (Close 1011 ''Ping timeout''))), s1)
                 else (None, s1\<lparr>last_ping_time := current_time t\<rparr>))
         | PingRaises e \<Rightarrow> (Some e, s))
      else (None, s))"

text \<open>
  Lines 102 to 108: decode, classify, store. The storage collaborator is the parameter
  \<open>store\<close>: it returns a boolean or raises. A \<open>KickEvent\<close> instance is always truthy, so
  every returned event is stored; a \<^verbatim>\<open>False\<close> from the storage is only logged.
\<close>

definition process_message ::
  "(string \<Rightarrow> json option) \<Rightarrow> (string \<Rightarrow> KickEvent \<Rightarrow> exn + bool) \<Rightarrow> string \<Rightarrow> string \<Rightarrow> session
     \<Rightarrow> exn option \<times> session" where
  "process_message loads store channel_name message_raw s =
     (case loads message_raw of
        None \<Rightarrow> (Some JSONDecodeError, s)
      | Some message \<Rightarrow>
          (case handle_websocket_message loads message (overflow_log s) of
             (Inl e, overflow) \<Rightarrow> (Some e, s\<lparr>overflow_log := overflow\<rparr>)
           | (Inr None, overflow) \<Rightarrow>
               (None, s\<lparr>overflow_log := overflow, messages_processed := messages_processed s + 1\<rparr>)
           | (Inr (Some kick_event), overflow) \<Rightarrow>
               (let s1 = s\<lparr>overflow_log := overflow,
                            store_calls := store_calls s @ [(channel_name, kick_event)]\<rparr>
                in case store channel_name kick_event of
                     Inl e \<Rightarrow> (Some e, s1)
                   | Inr ok \<Rightarrow> (None, s1\<lparr>messages_processed := messages_processed s + 1\<rparr>))))"

text \<open>Lines 66 to 108: the body of the inner \<^verbatim>\<open>try\<close>.\<close>

definition iteration ::
  "(string \<Rightarrow> json option) \<Rightarrow> (string \<Rightarrow> KickEvent \<Rightarrow> exn + bool) \<Rightarrow> string \<Rightarrow> tick \<Rightarrow> session
     \<Rightarrow> exn option \<times> session" where
  "iteration loads store channel_name t s =
     (case keepalive t s of
        (Some e, s1) \<Rightarrow> (Some e, s1)
      | (None, s1) \<Rightarrow>
          (case recv_result t of
             RecvTimeout \<Rightarrow> (Some TimeoutError, s1)
           | RecvRaises e \<Rightarrow> (Some e, s1)
           | RecvMessage message_raw \<Rightarrow> process_message loads store channel_name message_raw s1))"

text \<open>
  Lines 63 to 119: the \<^verbatim>\<open>while\<close> loop. \<^verbatim>\<open>except asyncio.TimeoutError: continue\<close> is the
  only handler that keeps the loop going; \<^verbatim>\<open>ConnectionClosed\<close> is logged and raised
  again, anything else leaves the function as it is.
\<close>

fun receive_loop ::
  "(string \<Rightarrow> json option) \<Rightarrow> (string \<Rightarrow> KickEvent \<Rightarrow> exn + bool) \<Rightarrow> string \<Rightarrow> tick list \<Rightarrow> session
     \<Rightarrow> outcome \<times> session" where
  "receive_loop loads store channel_name [] s = (Unfinished, s)"
| "receive_loop loads store channel_name (t # ts) s =
     (if stop_is_set t then (Returned, s)
      else (case iteration loads store channel_name t s of
              (None, s1) \<Rightarrow> receive_loop loads store channel_name ts s1
            | (Some TimeoutError, s1) \<Rightarrow> receive_loop loads store channel_name ts s1
            | (Some e, s1) \<Rightarrow> (Raised e, s1)))"

text \<open>The locals as lines 47 to 51 set them, and no effect yet.\<close>

definition new_session :: "int \<Rightarrow> session" where
  "new_session now =
     \<lparr>last_ping_time = now, consecutive_ping_failures = 0,
      connect_calls = 0, subscriptions = [], overflow_log = [],
      store_calls = [], messages_processed = 0\<rparr>"

definition listen_to_chat ::
  "(string \<Rightarrow> json option) \<Rightarrow> (string \<Rightarrow> KickEvent \<Rightarrow> exn + bool) \<Rightarrow> string \<Rightarrow> attempt_env
     \<Rightarrow> outcome \<times> session" where
  "listen_to_chat loads store channel_name env =
     (let s = new_session (start_time env)
      in case get_chatroom_id (http env) of
           Inl e \<Rightarrow> (Raised e, s)
         | Inr chatroom_id \<Rightarrow>
             if \<not> truthy chatroom_id then (Returned, s)
             else (case connect_raises env of
                     Some e \<Rightarrow> (Raised e, s\<lparr>connect_calls := 1\<rparr>)
                   | None \<Rightarrow>
                       (case subscribe_raises env of
                          Some e \<Rightarrow> (Raised e, s\<lparr>connect_calls := 1\<rparr>)
                        | None \<Rightarrow>
                            receive_loop loads store channel_name (ticks env)
                              (s\<lparr>connect_calls := 1, subscriptions := [chatroom_id]\<rparr>))))"

section \<open>The connection supervisor (src/cli.py, _scrape_channel_with_retry)\<close>

definition max_retries :: nat where
  "max_retries = 10"

definition max_connection_retries :: nat where
  "max_connection_retries = 50"

definition base_delay :: nat where
  "base_delay = 2"

definition connection_base_delay :: rat where
  "connection_base_delay = 1"

text \<open>
  The two counters of the supervisor, and a record of what it has done: the sessions it
  has run (one entry for each call of \<open>listen_to_chat\<close>) and the backoff delays it has
  waited for, each with the branch that computed it.
\<close>

datatype track = Severe | Generic

record supervisor =
  retry_count :: nat
  connection_retry_count :: nat
  sessions :: "(outcome \<times> session) list"
  delays :: "(track \<times> rat) list"

text \<open>What a handler decides: the exception is not caught, the loop is left
  (\<^verbatim>\<open>break\<close>), or a delay is waited for.\<close>

datatype decision = Propagate exn | GiveUp | Backoff track rat

text \<open>
  The body of \<^verbatim>\<open>except Exception\<close> (lines 146 to 161), which the ordinary branch of the
  \<^verbatim>\<open>ConnectionClosed\<close> handler repeats (lines 123 to 137).
\<close>

definition generic_failure :: "supervisor \<Rightarrow> decision \<times> supervisor" where
  "generic_failure s =
     (let s1 = s\<lparr>retry_count := retry_count s + 1\<rparr>
      in if retry_count s1 > max_retries then (GiveUp, s1)
         else (Backoff Generic (of_nat (base_delay * 2 ^ (retry_count s1 - 1))), s1))"

text \<open>
  The \<^verbatim>\<open>except\<close> clauses. \<open>code_of\<close> is \<^verbatim>\<open>getattr(e, 'code', None)\<close>, an attribute of the
  websockets library's exception. The delay of the severe branch,
  \<^verbatim>\<open>min(connection_base_delay * (1.5 ** min(connection_retry_count, 8)), 30)\<close>, is exact
  in binary floating point for these exponents and is modelled as a rational.
\<close>

definition handle_failure :: "(exn \<Rightarrow> int option) \<Rightarrow> exn \<Rightarrow> supervisor \<Rightarrow> decision \<times> supervisor" where
  "handle_failure code_of e s =
     (case e of
        ConnectionClosed r c \<Rightarrow>
          (let s1 = s\<lparr>connection_retry_count := connection_retry_count s + 1\<rparr>;
               error_code = code_of e
           in if error_code = Some 4200 \<or> error_code = Some 1011 then
                (if connection_retry_count s1 > max_connection_retries then (GiveUp, s1)
                 else if connection_retry_count s1 \<le> 10
                   then (Backoff Severe
                           (min (connection_base_delay
                                   * (3 / 2) ^ (min (connection_retry_count s1) 8)) 30), s1)
                   else (Backoff Severe 30, s1))
              else generic_failure s1)
      | CancelledError \<Rightarrow> (Propagate CancelledError, s)
      | _ \<Rightarrow> generic_failure s)"

text \<open>
  One round of the supervisor's \<^verbatim>\<open>while\<close> loop as the environment drives it: the stop
  event and \<^verbatim>\<open>self.running\<close> when the condition is read, the session, and what
  \<^verbatim>\<open>asyncio.wait_for(stop_event.wait(), timeout=delay)\<close> does if a delay is waited for.
\<close>

datatype wait_outcome = WaitStopSet | WaitTimedOut | WaitRaises exn

record round =
  stop_event_is_set :: bool
  app_running :: bool
  attempt :: attempt_env
  wait_result :: wait_outcome

text \<open>How the loop ends: the \<^verbatim>\<open>while\<close> is left (condition false or \<^verbatim>\<open>break\<close>), an
  exception leaves the coroutine, or the observed rounds ran out.\<close>

datatype ending = LoopExit | Propagated exn | OutOfScript

fun scrape_loop ::
  "(string \<Rightarrow> json option) \<Rightarrow> (string \<Rightarrow> KickEvent \<Rightarrow> exn + bool) \<Rightarrow> (exn \<Rightarrow> int option) \<Rightarrow> string
     \<Rightarrow> round list \<Rightarrow> supervisor \<Rightarrow> ending \<times> supervisor" where
  "scrape_loop loads store code_of channel_name [] s = (OutOfScript, s)"
| "scrape_loop loads store code_of channel_name (r # rs) s =
     (if \<not> (\<not> stop_event_is_set r \<and> app_running r) then (LoopExit, s)
      else
        (let res = listen_to_chat loads store channel_name (attempt r);
             s1 = s\<lparr>sessions := sessions s @ [res]\<rparr>
         in case fst res of
              Unfinished \<Rightarrow> (OutOfScript, s1)
            | Returned \<Rightarrow> (LoopExit, s1\<lparr>retry_count := 0, connection_retry_count := 0\<rparr>)
            | Raised e \<Rightarrow>
                (case handle_failure code_of e s1 of
                   (Propagate e', s2) \<Rightarrow> (Propagated e', s2)
                 | (GiveUp, s2) \<Rightarrow> (LoopExit, s2)
                 | (Backoff tr delay, s2) \<Rightarrow>
                     (let s3 = s2\<lparr>delays := delays s2 @ [(tr, delay)]\<rparr>
                      in case wait_result r of
                           WaitStopSet \<Rightarrow> (LoopExit, s3)
                         | WaitTimedOut \<Rightarrow> scrape_loop loads store code_of channel_name rs s3
                         | WaitRaises TimeoutError \<Rightarrow>
                             scrape_loop loads store code_of channel_name rs s3
                         | WaitRaises e' \<Rightarrow> (Propagated e', s3)))))"

definition supervisor_init :: supervisor where
  "supervisor_init = \<lparr>retry_count = 0, connection_retry_count = 0, sessions = [], delays = []\<rparr>"

section \<open>The orchestrator's registry (src/cli.py, KickChatLogger)\<close>

text \<open>
  \<open>active_tasks\<close> and \<open>stop_events\<close> are the two dictionaries; a task and an event are
  known by a handle. \<open>created_tasks\<close> lists every \<^verbatim>\<open>asyncio.create_task\<close> call
  (channel, task, event), and \<open>events_set\<close> the events on which \<^verbatim>\<open>set()\<close> was called.
\<close>

record registry =
  active_tasks :: "string \<rightharpoonup> nat"
  stop_events :: "string \<rightharpoonup> nat"
  next_handle :: nat
  created_tasks :: "(string \<times> nat \<times> nat) list"
  events_set :: "nat list"

definition registry_init :: registry where
  "registry_init = \<lparr>active_tasks = Map.empty, stop_events = Map.empty, next_handle = 0,
                     created_tasks = [], events_set = []\<rparr>"

definition start_channel_scraping :: "registry \<Rightarrow> string \<Rightarrow> bool \<times> registry" where
  "start_channel_scraping reg channel_name =
     (if active_tasks reg channel_name \<noteq> None then (True, reg)
      else
        (let stop_event = next_handle reg;
             task = next_handle reg + 1
         in (True,
             reg\<lparr>stop_events := (stop_events reg)(channel_name \<mapsto> stop_event),
                 active_tasks := (active_tasks reg)(channel_name \<mapsto> task),
                 next_handle := next_handle reg + 2,
                 created_tasks := created_tasks reg @ [(channel_name, task, stop_event)]\<rparr>)))"

text \<open>Lines 169 to 172, the end of \<open>_scrape_channel_with_retry\<close>.\<close>

definition remove_entry :: "registry \<Rightarrow> string \<Rightarrow> registry" where
  "remove_entry reg channel_name =
     reg\<lparr>active_tasks := (active_tasks reg)(channel_name := None),
         stop_events := (stop_events reg)(channel_name := None)\<rparr>"

text \<open>
  The whole coroutine: the loop, then the removal of the entry. The removal follows the
  loop and is not in a \<^verbatim>\<open>finally\<close>: it runs when the loop is left, not when an
  exception leaves the coroutine and not while the coroutine is still running.
\<close>

definition scrape_channel_with_retry ::
  "(string \<Rightarrow> json option) \<Rightarrow> (string \<Rightarrow> KickEvent \<Rightarrow> exn + bool) \<Rightarrow> (exn \<Rightarrow> int option)
     \<Rightarrow> registry \<Rightarrow> string \<Rightarrow> round list \<Rightarrow> ending \<times> supervisor \<times> registry" where
  "scrape_channel_with_retry loads store code_of reg channel_name rounds =
     (case scrape_loop loads store code_of channel_name rounds supervisor_init of
        (LoopExit, s) \<Rightarrow> (LoopExit, s, remove_entry reg channel_name)
      | (e, s) \<Rightarrow> (e, s, reg))"

text \<open>
  \<open>stop_channel_scraping\<close>. \<open>task_rounds\<close> is what the task's coroutine goes through from
  the moment the stop event is set until it ends (or for as long as it is observed).
  \<open>grace\<close> and \<open>forced\<close> are what the two \<^verbatim>\<open>await asyncio.wait_for(task, ...)\<close> do in
  \<open>stop_channel_scraping\<close>: return, time out, or raise what the task raised. The
  function itself never deletes from the dictionaries.
\<close>

datatype await_outcome = AwaitReturns | AwaitTimeout | AwaitRaises exn

definition stop_channel_scraping ::
  "(string \<Rightarrow> json option) \<Rightarrow> (string \<Rightarrow> KickEvent \<Rightarrow> exn + bool) \<Rightarrow> (exn \<Rightarrow> int option)
     \<Rightarrow> registry \<Rightarrow> string \<Rightarrow> round list \<Rightarrow> await_outcome \<Rightarrow> await_outcome
     \<Rightarrow> (exn + bool) \<times> registry" where
  "stop_channel_scraping loads store code_of reg channel_name task_rounds grace forced =
     (if active_tasks reg channel_name = None then (Inr False, reg)
      else
        (let reg1 = (case stop_events reg channel_name of
                       None \<Rightarrow> reg
                     | Some ev \<Rightarrow> reg\<lparr>events_set := events_set reg @ [ev]\<rparr>);
             reg2 = snd (snd (scrape_channel_with_retry loads store code_of reg1
                                channel_name task_rounds))
         in case grace of
              AwaitReturns \<Rightarrow> (Inr True, reg2)
            | AwaitRaises TimeoutError \<Rightarrow>
                (case forced of
                   AwaitReturns \<Rightarrow> (Inr True, reg2)
                 | AwaitTimeout \<Rightarrow> (Inr True, reg2)
                 | AwaitRaises TimeoutError \<Rightarrow> (Inr True, reg2)
                 | AwaitRaises e \<Rightarrow> (Inl e, reg2))
            | AwaitTimeout \<Rightarrow>
                (case forced of
                   AwaitReturns \<Rightarrow> (Inr True, reg2)
                 | AwaitTimeout \<Rightarrow> (Inr True, reg2)
                 | AwaitRaises TimeoutError \<Rightarrow> (Inr True, reg2)
                 | AwaitRaises e \<Rightarrow> (Inl e, reg2))
            | AwaitRaises e \<Rightarrow> (Inl e, reg2)))"

text \<open>
  The \<^verbatim>\<open>code\<close> attribute of the websockets library's \<^verbatim>\<open>ConnectionClosed\<close>, which is not
  part of this repository: the close code received from the peer, and 1006 (abnormal
  closure) when no close frame was received. No other exception of the model has a
  \<^verbatim>\<open>code\<close> attribute.
\<close>

definition websockets_code :: "exn \<Rightarrow> int option" where
  "websockets_code e =
     (case e of
        ConnectionClosed (Some c) s \<Rightarrow> Some (close_code c)
      | ConnectionClosed None s \<Rightarrow> Some 1006
      | _ \<Rightarrow> None)"


section \<open>Collaborators and inputs of the examples\<close>

text \<open>
  Four wire texts: a chat message, the connection acknowledgement, an event the program
  does not know, and an envelope whose event field is a list.
\<close>

definition chat_message_raw :: string where
  \<open>chat_message_raw =
     ''{"event": "App'' @ [CHR 0x5C, CHR 0x5C] @ ''Events'' @ [CHR 0x5C, CHR 0x5C]
       @ ''ChatMessageEvent", "data": "{}"}''\<close>

definition established_raw :: string where
  \<open>established_raw = ''{"event": "pusher:connection_established", "data": "{}"}''\<close>

definition pong_raw :: string where
  \<open>pong_raw = ''{"event": "pusher:pong", "data": {}}''\<close>

definition list_event_raw :: string where
  \<open>list_event_raw = ''{"event": [], "data": {}}''\<close>

text \<open>
  \<^verbatim>\<open>json.loads\<close> on the texts of the examples: the four texts above and \<^verbatim>\<open>{}\<close> decode as
  Python decodes them; the examples use no other JSON text, and \<open>''not json''\<close>, the one
  other text they use, raises \<^verbatim>\<open>JSONDecodeError\<close>.
\<close>

definition json_loads_examples :: "string \<Rightarrow> json option" where
  "json_loads_examples text =
     (if text = chat_message_raw
        then Some (JObj [(''event'', JStr CHAT_MESSAGE_EVENT), (''data'', JStr ''{}'')])
      else if text = established_raw
        then Some (JObj [(''event'', JStr PUSHER_CONNECTION_ESTABLISHED_EVENT),
                         (''data'', JStr ''{}'')])
      else if text = pong_raw
        then Some (JObj [(''event'', JStr ''pusher:pong''), (''data'', JObj [])])
      else if text = list_event_raw
        then Some (JObj [(''event'', JArr []), (''data'', JObj [])])
      else if text = ''{}'' then Some (JObj [])
      else None)"

text \<open>A storage collaborator that stores every event.\<close>

definition store_ok :: "string \<Rightarrow> KickEvent \<Rightarrow> exn + bool" where
  "store_ok channel_name kick_event = Inr True"

text \<open>The lookup answer for a channel whose chat room id is 12345, and the answer 404.\<close>

definition lookup_found :: http_outcome where
  "lookup_found =
     HttpResponse 200 (Some (JObj [(''chatroom'', JObj [(''id'', JNum 12345)])]))"



text \<open>Loop iterations: nothing arrives; a text arrives; a ping is due (the clock is past
  the interval) and times out; the peer closes the connection with a code; and, last of
  the definitions below, the task is cancelled while it waits for a pong.\<close>

definition quiet_tick :: tick where
  "quiet_tick = \<lparr>stop_is_set = False, current_time = 0, ping_result = Pong,
                  recv_result = RecvTimeout\<rparr>"

definition message_tick :: "string \<Rightarrow> tick" where
  "message_tick text = \<lparr>stop_is_set = False, current_time = 0, ping_result = Pong,
                         recv_result = RecvMessage text\<rparr>"

definition ping_timeout_tick :: "int \<Rightarrow> tick" where
  "ping_timeout_tick now = \<lparr>stop_is_set = False, current_time = now,
                             ping_result = PingTimeout, recv_result = RecvTimeout\<rparr>"

definition closed_tick :: "int \<Rightarrow> tick" where
  "closed_tick c = \<lparr>stop_is_set = False, current_time = 0, ping_result = Pong,
                     recv_result = RecvRaises (ConnectionClosed (Some (Close c [])) None)\<rparr>"

text \<open>A session that finds the chat room, connects, subscribes and then goes through
  the given iterations; a round of the supervisor running such a session, with the stop
  event never set.\<close>

definition session_of :: "http_outcome \<Rightarrow> tick list \<Rightarrow> attempt_env" where
  "session_of h ts = \<lparr>http = h, start_time = 0, connect_raises = None,
                       subscribe_raises = None, ticks = ts\<rparr>"

definition round_of :: "attempt_env \<Rightarrow> round" where
  "round_of env = \<lparr>stop_event_is_set = False, app_running = True, attempt = env,
                    wait_result = WaitTimedOut\<rparr>"

definition cancelled_ping_tick :: tick where
  "cancelled_ping_tick = \<lparr>stop_is_set = False, current_time = 1201,
                           ping_result = PingRaises CancelledError, recv_result = RecvTimeout\<rparr>"

text \<open>Rounds of the supervisor: a session that connects and is closed by the peer with
  code 1006; one that is still running when it is last observed; one that stores a chat
  message and is then closed with code 1006.\<close>

definition ordinary_round :: round where
  "ordinary_round = round_of (session_of lookup_found [closed_tick 1006])"

definition healthy_round :: round where
  "healthy_round = round_of (session_of lookup_found [quiet_tick])"

definition chatty_round :: round where
  "chatty_round =
     round_of (session_of lookup_found [message_tick chat_message_raw, closed_tick 1006])"

section \<open>Notions used to state the properties\<close>

text \<open>The Supervision Entry of a channel: its task together with its stop event.\<close>

definition supervision_entry :: "registry \<Rightarrow> string \<Rightarrow> (nat \<times> nat) option" where
  "supervision_entry reg channel_name =
     (case (active_tasks reg channel_name, stop_events reg channel_name) of
        (Some task, Some ev) \<Rightarrow> Some (task, ev)
      | _ \<Rightarrow> None)"

text \<open>How many tasks have been created for a channel.\<close>

definition tasks_created :: "registry \<Rightarrow> string \<Rightarrow> nat" where
  "tasks_created reg channel_name =
     length (filter (\<lambda>c. fst c = channel_name) (created_tasks reg))"

text \<open>Python can hash every decoded JSON value except a list and a dictionary.\<close>

fun hashable :: "json \<Rightarrow> bool" where
  "hashable (JArr xs) = False"
| "hashable (JObj kvs) = False"
| "hashable v = True"

text \<open>
  A failure of the generic track: any \<^verbatim>\<open>Exception\<close> other than a connection closure,
  or a connection closure whose code is neither 4200 nor 1011.
\<close>

definition generic_or_ordinary :: "(exn \<Rightarrow> int option) \<Rightarrow> exn \<Rightarrow> bool" where
  "generic_or_ordinary code_of e =
     (case e of
        ConnectionClosed r c \<Rightarrow> \<not> (code_of e = Some 4200 \<or> code_of e = Some 1011)
      | CancelledError \<Rightarrow> False
      | _ \<Rightarrow> True)"

text \<open>The session of a round ends with such a failure.\<close>

definition fails_ordinarily ::
  "(string \<Rightarrow> json option) \<Rightarrow> (string \<Rightarrow> KickEvent \<Rightarrow> exn + bool) \<Rightarrow> (exn \<Rightarrow> int option) \<Rightarrow> string
     \<Rightarrow> round \<Rightarrow> bool" where
  "fails_ordinarily loads store code_of channel_name r =
     (case fst (listen_to_chat loads store channel_name (attempt r)) of
        Raised e \<Rightarrow> generic_or_ordinary code_of e
      | _ \<Rightarrow> False)"

text \<open>The backoff wait of a round is interrupted by an exception (the task is
  cancelled from outside).\<close>

definition wait_is_cancelled :: "round \<Rightarrow> bool" where
  "wait_is_cancelled r =
     (case wait_result r of
        WaitRaises TimeoutError \<Rightarrow> False
      | WaitRaises e \<Rightarrow> True
      | _ \<Rightarrow> False)"

text \<open>The lookup returns a result that is not a success: not found, blocked, an
  unexpected status or a timeout.\<close>

definition lookup_fails :: "http_outcome \<Rightarrow> bool" where
  "lookup_fails h = (case get_channel_info h of Inr res \<Rightarrow> \<not> success res | Inl e \<Rightarrow> False)"

text \<open>
  A wire text that fails to decode: the text itself is not JSON, or it is the envelope
  of a handled event whose \<^verbatim>\<open>data\<close> string is not JSON.
\<close>

definition undecodable :: "(string \<Rightarrow> json option) \<Rightarrow> string \<Rightarrow> bool" where
  "undecodable loads message_raw =
     (case loads message_raw of
        None \<Rightarrow> True
      | Some (JObj kvs) \<Rightarrow>
          (case (dict_get kvs ''event'' JNull, dict_get kvs ''data'' (JStr ''{}'')) of
             (JStr n, JStr d) \<Rightarrow>
               n \<notin> set IGNORED_EVENTS \<and> n \<in> set HANDLED_EVENTS \<and> loads d = None
           | _ \<Rightarrow> False)
      | Some _ \<Rightarrow> False)"

section \<open>Properties of the sanitisation\<close>

lemma in_class_lower_key: "in_name_class (py_lower_char c) \<Longrightarrow> storage_key_char (py_lower_char c)"
  unfolding in_name_class_def storage_key_char_def py_lower_char_def Let_def
  by (auto split: if_splits)

lemma key_char_lower: "storage_key_char c \<Longrightarrow> py_lower_char c = c"
  unfolding storage_key_char_def py_lower_char_def Let_def by auto

lemma key_char_not_space: "storage_key_char c \<Longrightarrow> \<not> py_isspace c"
  unfolding storage_key_char_def py_isspace_def Let_def by auto

lemma key_char_in_class: "storage_key_char c \<Longrightarrow> in_name_class c"
  unfolding storage_key_char_def in_name_class_def Let_def by auto

lemma underscore_key_char: "storage_key_char (CHR ''_'')"
  unfolding storage_key_char_def by simp

lemma isspace_lower: "py_isspace (py_lower_char c) = py_isspace c"
  unfolding py_isspace_def py_lower_char_def Let_def by auto

lemma dropWhile_space_lower:
  "dropWhile py_isspace (map py_lower_char xs) = map py_lower_char (dropWhile py_isspace xs)"
  by (induction xs) (simp_all add: isspace_lower)

lemma strip_lower: "py_strip (py_lower s) = py_lower (py_strip s)"
proof -
  have "py_strip (py_lower s)
          = rev (dropWhile py_isspace (rev (map py_lower_char (dropWhile py_isspace s))))"
    unfolding py_strip_def py_lower_def by (simp only: dropWhile_space_lower)
  also have "\<dots> = rev (dropWhile py_isspace (map py_lower_char (rev (dropWhile py_isspace s))))"
    by (simp only: rev_map)
  also have "\<dots> = rev (map py_lower_char (dropWhile py_isspace (rev (dropWhile py_isspace s))))"
    by (simp only: dropWhile_space_lower)
  also have "\<dots> = py_lower (py_strip s)"
    unfolding py_strip_def py_lower_def by (simp only: rev_map)
  finally show ?thesis .
qed

lemma set_strip: "set (py_strip s) \<subseteq> set s"
  unfolding py_strip_def
  by (metis set_dropWhileD set_rev subsetI)

lemma sanitize_chars: 
  assumes "c \<in> set (sanitize_channel_name s)" shows "storage_key_char c"
proof -
  from assms obtain d where d: "d \<in> set (py_strip (py_lower s))"
      and c: "c = (if in_name_class d then d else CHR ''_'')"
    unfolding sanitize_channel_name_def re_sub_underscore_def Let_def by auto
  from d set_strip have "d \<in> set (py_lower s)" by blast
  then obtain x where "d = py_lower_char x" unfolding py_lower_def by auto
  with c show ?thesis using in_class_lower_key underscore_key_char by auto
qed

lemma dropWhile_none: "\<forall>x\<in>set xs. \<not> P x \<Longrightarrow> dropWhile P xs = xs"
  by (cases xs) auto

lemma sanitize_fixes_keys: 
  assumes a: "\<forall>c\<in>set s. storage_key_char c" shows "sanitize_channel_name s = s"
proof -
  have l: "py_lower s = s" unfolding py_lower_def using a key_char_lower by (simp add: map_idI)
  have st: "py_strip s = s" unfolding py_strip_def using a key_char_not_space
    by (simp add: dropWhile_none)
  have r: "re_sub_underscore s = s" unfolding re_sub_underscore_def using a key_char_in_class
    by (simp add: map_idI)
  show ?thesis unfolding sanitize_channel_name_def Let_def by (simp add: l st r)
qed

text \<open>
  Claim C10. Sanitising is idempotent: sanitising a sanitised name gives the same name,
  for every string.
\<close>

theorem sanitize_channel_name_idempotent:
  "sanitize_channel_name (sanitize_channel_name s) = sanitize_channel_name s"
  by (rule sanitize_fixes_keys) (simp add: sanitize_chars)

text \<open>
  Claim C9, as stated, at the name \<open>'' a''\<close>: lowercasing and mapping every character
  outside the class to an underscore gives \<open>''_a''\<close>, the code gives \<open>''a''\<close>, since
  \<^verbatim>\<open>strip()\<close> removes the leading blank instead.
\<close>

theorem sanitize_differs_from_specified:
  "sanitize_channel_name '' a'' = ''a'' \<and> sanitize_as_specified '' a'' = ''_a''
   \<and> sanitize_channel_name '' a'' \<noteq> sanitize_as_specified '' a''"
  by code_simp

text \<open>
  Claim C9, amended. Sanitising strips the white space at both ends of the name,
  lowercases it and maps every remaining character outside \<^verbatim>\<open>[a-zA-Z0-9_]\<close> to an
  underscore; \<open>''Foo_Bar''\<close> becomes \<open>''foo_bar''\<close>; for every name the result, and so
  the table name after its fixed prefix, has only characters of \<^verbatim>\<open>[a-z0-9_]\<close>.
\<close>

theorem sanitize_channel_name_strips_then_maps:
  "sanitize_channel_name name = sanitize_as_specified (py_strip name)
   \<and> sanitize_channel_name ''Foo_Bar'' = ''foo_bar''
   \<and> (\<forall>c\<in>set (sanitize_channel_name name). storage_key_char c)
   \<and> (\<exists>key. get_channel_table_name name = ''kickchat_'' @ key \<and> (\<forall>c\<in>set key. storage_key_char c))"
proof -
  have a: "sanitize_channel_name name = sanitize_as_specified (py_strip name)"
    unfolding sanitize_channel_name_def sanitize_as_specified_def Let_def
    by (simp add: strip_lower)
  have b: "sanitize_channel_name ''Foo_Bar'' = ''foo_bar''" by code_simp
  have c: "\<forall>c\<in>set (sanitize_channel_name name). storage_key_char c"
    using sanitize_chars by blast
  have d: "get_channel_table_name name = ''kickchat_'' @ sanitize_channel_name name"
    unfolding get_channel_table_name_def CHANNEL_TABLE_PREFIX_def Let_def by simp
  from a b c d show ?thesis by blast
qed

text \<open>The amended claim C9 at the name \<open>'' xQc. ''\<close>.\<close>

theorem sanitize_channel_name_strips_then_maps_witness:
  "CHR ''x'' \<in> set (sanitize_channel_name '' xQc. '') \<and> storage_key_char (CHR ''x'')
   \<and> sanitize_channel_name '' xQc. '' = ''xqc_''
   \<and> get_channel_table_name '' xQc. '' = ''kickchat_xqc_''"
proof -
  have m: "CHR ''x'' \<in> set (sanitize_channel_name '' xQc. '')" by code_simp
  have v: "sanitize_channel_name '' xQc. '' = ''xqc_''" by code_simp
  have t: "get_channel_table_name '' xQc. '' = ''kickchat_xqc_''" by code_simp
  from sanitize_channel_name_strips_then_maps [of "'' xQc. ''"] m v t
  show ?thesis by blast
qed

section \<open>Properties of the registry\<close>

lemma start_keeps_keys:
  assumes "(active_tasks reg c = None) = (stop_events reg c = None)"
  shows "(active_tasks (snd (start_channel_scraping reg ch)) c = None)
           = (stop_events (snd (start_channel_scraping reg ch)) c = None)"
  using assms by (simp add: start_channel_scraping_def Let_def)

lemma remove_entry_keeps_keys:
  assumes "(active_tasks reg c = None) = (stop_events reg c = None)"
  shows "(active_tasks (remove_entry reg ch) c = None) = (stop_events (remove_entry reg ch) c = None)"
  using assms by (simp add: remove_entry_def)

lemma registry_init_keys:
  "(active_tasks registry_init c = None) = (stop_events registry_init c = None)"
  by (simp add: registry_init_def)

text \<open>
  Claim C5. For every channel name, two calls of start in immediate succession leave
  exactly one Supervision Entry (one task, one stop event) for it: the second call
  returns success and changes nothing, so it neither adds a second task nor replaces the
  entry of the first. The registry is any one in which the channel is a key of both
  dictionaries or of neither, as in every registry the program builds.
\<close>

theorem start_twice_one_entry:
  assumes "(active_tasks reg ch = None) = (stop_events reg ch = None)"
  shows "fst (start_channel_scraping reg ch) = True
       \<and> start_channel_scraping (snd (start_channel_scraping reg ch)) ch
           = (True, snd (start_channel_scraping reg ch))
       \<and> supervision_entry (snd (start_channel_scraping reg ch)) ch \<noteq> None
       \<and> tasks_created (snd (start_channel_scraping (snd (start_channel_scraping reg ch)) ch)) ch
           = tasks_created reg ch + (if active_tasks reg ch = None then 1 else 0)"
  using assms
  unfolding start_channel_scraping_def supervision_entry_def tasks_created_def Let_def
  by (auto split: option.splits)

text \<open>Claim C5 on the empty registry and the channel \<open>''xqc''\<close>.\<close>

theorem start_twice_one_entry_witness:
  "((active_tasks registry_init ''xqc'' = None) = (stop_events registry_init ''xqc'' = None))
   \<and> supervision_entry (snd (start_channel_scraping (snd (start_channel_scraping registry_init ''xqc'')) ''xqc'')) ''xqc''
        = Some (1, 0)
   \<and> tasks_created (snd (start_channel_scraping (snd (start_channel_scraping registry_init ''xqc'')) ''xqc'')) ''xqc'' = 1"
proof -
  let ?once = "snd (start_channel_scraping registry_init ''xqc'')"
  have h: "(active_tasks registry_init ''xqc'' = None) = (stop_events registry_init ''xqc'' = None)"
    by (simp add: registry_init_def)
  note twice = start_twice_one_entry [OF h]
  from twice have same: "start_channel_scraping ?once ''xqc'' = (True, ?once)"
    by blast
  from twice have count:
    "tasks_created (snd (start_channel_scraping ?once ''xqc'')) ''xqc''
       = tasks_created registry_init ''xqc''
         + (if active_tasks registry_init ''xqc'' = None then 1 else 0)"
    by blast
  have e: "supervision_entry ?once ''xqc'' = Some (1, 0)"
    by (simp add: registry_init_def start_channel_scraping_def supervision_entry_def)
  have t: "tasks_created registry_init ''xqc'' = 0"
    by (simp add: registry_init_def tasks_created_def)
  have n: "active_tasks registry_init ''xqc'' = None"
    by (simp add: registry_init_def)
  from count t n
  have c1: "tasks_created (snd (start_channel_scraping ?once ''xqc'')) ''xqc'' = 1"
    by simp
  from same e
  have e2: "supervision_entry (snd (start_channel_scraping ?once ''xqc'')) ''xqc'' = Some (1, 0)"
    by simp
  from h e2 c1 show ?thesis by blast
qed

section \<open>Properties of the message classifier\<close>

lemma ignored_handled_disjoint: "set IGNORED_EVENTS \<inter> set HANDLED_EVENTS = {}"
  by code_simp


text \<open>
  Claim C6, amended. For every raw message that decodes to a dictionary whose event field
  is absent or hashable (a string, a number, a boolean or null), exactly one of three
  things happens, decided by the event name: a name in the ignored set writes nothing to
  the overflow log and calls no storage; a name in the handled set writes nothing to the
  overflow log, and the storage is called once with the parsed event, or not at all when
  parsing raises; anything else is appended to the overflow log once and calls no
  storage. The two sets are disjoint.
\<close>

theorem classifier_partition:
  assumes dec: "loads raw = Some (JObj kvs)"
      and ev: "dict_get kvs ''event'' JNull = ev"
      and hash: "hashable ev"
  shows "set IGNORED_EVENTS \<inter> set HANDLED_EVENTS = {}
       \<and> (if \<exists>n\<in>set IGNORED_EVENTS. ev = JStr n then
            overflow_log (snd (process_message loads store ch raw s)) = overflow_log s
            \<and> store_calls (snd (process_message loads store ch raw s)) = store_calls s
          else if \<exists>n\<in>set HANDLED_EVENTS. ev = JStr n then
            overflow_log (snd (process_message loads store ch raw s)) = overflow_log s
            \<and> (case parse_event loads kvs of
                 Inl e \<Rightarrow> store_calls (snd (process_message loads store ch raw s)) = store_calls s
               | Inr k \<Rightarrow> JStr (event k) = ev
                          \<and> store_calls (snd (process_message loads store ch raw s))
                              = store_calls s @ [(ch, k)])
          else
            overflow_log (snd (process_message loads store ch raw s)) = overflow_log s @ [JObj kvs]
            \<and> store_calls (snd (process_message loads store ch raw s)) = store_calls s)"
proof -
  have disj: "set IGNORED_EVENTS \<inter> set HANDLED_EVENTS = {}"
    by (rule ignored_handled_disjoint)
  show ?thesis
  proof (cases ev)
    case (JStr n)
    then have ev': "dict_get kvs ''event'' JNull = JStr n" using ev by simp
    show ?thesis
    proof (cases "n \<in> set IGNORED_EVENTS")
      case True
      then show ?thesis using disj JStr dec ev'
        by (simp add: process_message_def handle_websocket_message_def)
    next
      case False
      note notign = this
      show ?thesis
      proof (cases "n \<in> set HANDLED_EVENTS")
        case True
        then show ?thesis using disj JStr dec ev' notign
          by (auto simp: process_message_def handle_websocket_message_def parse_event_def Let_def
                   split: sum.splits json.splits option.splits)
      next
        case False
        then show ?thesis using disj JStr dec ev' notign
          by (simp add: process_message_def handle_websocket_message_def)
      qed
    qed
  qed (use disj dec ev hash in \<open>simp_all add: process_message_def handle_websocket_message_def\<close>)
qed

text \<open>The amended claim C6 on the unknown event \<^verbatim>\<open>pusher:pong\<close>: one line in the overflow
  log, no storage call.\<close>

theorem classifier_partition_witness:
  "json_loads_examples pong_raw = Some (JObj [(''event'', JStr ''pusher:pong''), (''data'', JObj [])])
   \<and> dict_get [(''event'', JStr ''pusher:pong''), (''data'', JObj [])] ''event'' JNull
        = JStr ''pusher:pong''
   \<and> hashable (JStr ''pusher:pong'')
   \<and> overflow_log (snd (process_message json_loads_examples store_ok ''xqc'' pong_raw
                           (new_session 0)))
        = [JObj [(''event'', JStr ''pusher:pong''), (''data'', JObj [])]]
   \<and> store_calls (snd (process_message json_loads_examples store_ok ''xqc'' pong_raw
                          (new_session 0))) = []"
proof -
  let ?kvs = "[(''event'', JStr ''pusher:pong''), (''data'', JObj [])]"
  have a: "json_loads_examples pong_raw = Some (JObj ?kvs)" by code_simp
  have b: "dict_get ?kvs ''event'' JNull = JStr ''pusher:pong''" by code_simp
  have c: "hashable (JStr ''pusher:pong'')" by simp
  have ni: "\<not> (\<exists>n\<in>set IGNORED_EVENTS. JStr ''pusher:pong'' = JStr n)" by code_simp
  have nh: "\<not> (\<exists>n\<in>set HANDLED_EVENTS. JStr ''pusher:pong'' = JStr n)" by code_simp
  have z: "overflow_log (new_session 0) = []" "store_calls (new_session 0) = []"
    by (simp_all add: new_session_def)
  note part = classifier_partition [where loads = json_loads_examples and raw = pong_raw
      and kvs = ?kvs and ev = "JStr ''pusher:pong''" and store = store_ok
      and ch = "''xqc''" and s = "new_session 0", OF a b c]
  from part ni nh
  have "overflow_log (snd (process_message json_loads_examples store_ok ''xqc'' pong_raw
                             (new_session 0)))
          = overflow_log (new_session 0) @ [JObj ?kvs]
        \<and> store_calls (snd (process_message json_loads_examples store_ok ''xqc'' pong_raw
                             (new_session 0))) = store_calls (new_session 0)"
    by (simp only: if_False)
  with z a b c show ?thesis by simp
qed

text \<open>
  Claim C6, as stated, at the envelope \<^verbatim>\<open>{"event": [], "data": {}}\<close>: its event name is
  in neither set, yet nothing is appended to the overflow log; the membership test raises
  \<^verbatim>\<open>TypeError\<close>.
\<close>

theorem list_event_is_not_logged:
  "handle_websocket_message json_loads_examples
       (JObj [(''event'', JArr []), (''data'', JObj [])]) []
     = (Inl TypeError, [])
   \<and> fst (process_message json_loads_examples store_ok ''xqc'' list_event_raw (new_session 0))
       = Some TypeError
   \<and> overflow_log (snd (process_message json_loads_examples store_ok ''xqc'' list_event_raw
                           (new_session 0))) = []"
  by code_simp

section \<open>Properties of the supervisor\<close>

lemma handle_failure_ordinary_counts:
  assumes "generic_or_ordinary code_of e"
  shows "retry_count (snd (handle_failure code_of e s)) = retry_count s + 1"
    and "sessions (snd (handle_failure code_of e s)) = sessions s"
  using assms
  unfolding generic_or_ordinary_def handle_failure_def generic_failure_def Let_def
  by (cases e; simp)+

lemma handle_failure_ordinary_decision:
  assumes "generic_or_ordinary code_of e"
  shows "fst (handle_failure code_of e s)
           = (if retry_count s + 1 > max_retries then GiveUp
              else Backoff Generic (of_nat (base_delay * 2 ^ retry_count s)))"
  using assms
  unfolding generic_or_ordinary_def handle_failure_def generic_failure_def Let_def
  by (cases e; simp)

lemma scrape_loop_stopped_at_head:
  "\<not> (\<not> stop_event_is_set r \<and> app_running r)
     \<Longrightarrow> scrape_loop loads store code_of ch (r # rs) s = (LoopExit, s)"
  by simp

lemma scrape_loop_ordinary_round:
  assumes run: "\<not> stop_event_is_set r \<and> app_running r"
      and fail: "fails_ordinarily loads store code_of ch r"
  shows "\<exists>s1. retry_count s1 = retry_count s + 1
            \<and> length (sessions s1) = length (sessions s) + 1
            \<and> scrape_loop loads store code_of ch (r # rs) s
                = (if retry_count s + 1 > max_retries then (LoopExit, s1)
                   else if wait_result r = WaitStopSet then (LoopExit, s1)
                   else if wait_is_cancelled r
                     then (case wait_result r of WaitRaises e' \<Rightarrow> (Propagated e', s1)
                           | _ \<Rightarrow> (LoopExit, s1))
                   else scrape_loop loads store code_of ch rs s1)"
proof -
  let ?res = "listen_to_chat loads store ch (attempt r)"
  let ?s1 = "s\<lparr>sessions := sessions s @ [?res]\<rparr>"
  from fail obtain e where e: "fst ?res = Raised e" and ord: "generic_or_ordinary code_of e"
    unfolding fails_ordinarily_def by (auto split: outcome.splits)
  obtain d s2 where hf: "handle_failure code_of e ?s1 = (d, s2)"
    by (cases "handle_failure code_of e ?s1")
  from handle_failure_ordinary_counts [OF ord, of ?s1] hf
  have rc: "retry_count s2 = retry_count s + 1" and ss: "sessions s2 = sessions s @ [?res]"
    by simp_all
  from handle_failure_ordinary_decision [OF ord, of ?s1] hf
  have d: "d = (if retry_count s + 1 > max_retries then GiveUp
               else Backoff Generic (of_nat (base_delay * 2 ^ retry_count s)))"
    by simp
  show ?thesis
  proof (cases "retry_count s + 1 > max_retries")
    case True
    with d have "d = GiveUp" by simp
    with run e hf True rc ss show ?thesis
      by (intro exI [of _ s2]) (simp add: Let_def)
  next
    case False
    with d obtain dl where dl: "d = Backoff Generic dl" by simp
    let ?s3 = "s2\<lparr>delays := delays s2 @ [(Generic, dl)]\<rparr>"
    from rc ss have "retry_count ?s3 = retry_count s + 1"
        "length (sessions ?s3) = length (sessions s) + 1" by simp_all
    moreover from run e hf dl False
    have "scrape_loop loads store code_of ch (r # rs) s
                = (if retry_count s + 1 > max_retries then (LoopExit, ?s3)
                   else if wait_result r = WaitStopSet then (LoopExit, ?s3)
                   else if wait_is_cancelled r
                     then (case wait_result r of WaitRaises e' \<Rightarrow> (Propagated e', ?s3)
                           | _ \<Rightarrow> (LoopExit, ?s3))
                   else scrape_loop loads store code_of ch rs ?s3)"
      by (simp add: Let_def wait_is_cancelled_def split: wait_outcome.splits exn.splits)
    ultimately show ?thesis by blast
  qed
qed


lemma scrape_loop_exhausts:
  assumes "\<forall>r\<in>set fs. fails_ordinarily loads store code_of ch r"
      and "retry_count s \<le> max_retries"
      and "retry_count s + length fs > max_retries"
  shows "fst (scrape_loop loads store code_of ch (fs @ rest) s) \<noteq> OutOfScript
       \<and> length (sessions (snd (scrape_loop loads store code_of ch (fs @ rest) s))) + retry_count s
            \<le> length (sessions s) + max_retries + 1
       \<and> ((\<forall>r\<in>set fs. \<not> wait_is_cancelled r)
            \<longrightarrow> fst (scrape_loop loads store code_of ch (fs @ rest) s) = LoopExit)"
  using assms
proof (induction fs arbitrary: s)
  case Nil
  then show ?case by simp
next
  case (Cons r fs)
  let ?run = "scrape_loop loads store code_of ch ((r # fs) @ rest) s"
  show ?case
  proof (cases "\<not> stop_event_is_set r \<and> app_running r")
    case False
    then have eq: "?run = (LoopExit, s)" by simp
    show ?thesis unfolding eq using Cons.prems(2) by simp
  next
    case True
    from Cons.prems(1) have fail: "fails_ordinarily loads store code_of ch r" by simp
    from scrape_loop_ordinary_round [OF True fail, of s "fs @ rest"]
    obtain s1 where rc: "retry_count s1 = retry_count s + 1"
      and len: "length (sessions s1) = length (sessions s) + 1"
      and step: "?run
                = (if retry_count s + 1 > max_retries then (LoopExit, s1)
                   else if wait_result r = WaitStopSet then (LoopExit, s1)
                   else if wait_is_cancelled r
                     then (case wait_result r of WaitRaises e' \<Rightarrow> (Propagated e', s1)
                           | _ \<Rightarrow> (LoopExit, s1))
                   else scrape_loop loads store code_of ch (fs @ rest) s1)"
      by auto
    consider (giveup) "retry_count s + 1 > max_retries"
      | (stopped) "\<not> retry_count s + 1 > max_retries" "wait_result r = WaitStopSet"
      | (cancelled) "\<not> retry_count s + 1 > max_retries" "wait_result r \<noteq> WaitStopSet"
                    "wait_is_cancelled r"
      | (again) "\<not> retry_count s + 1 > max_retries" "wait_result r \<noteq> WaitStopSet"
                "\<not> wait_is_cancelled r"
      by blast
    then show ?thesis
    proof cases
      case giveup
      with step have eq: "?run = (LoopExit, s1)" by simp
      show ?thesis unfolding eq using len Cons.prems(2) by simp
    next
      case stopped
      with step have eq: "?run = (LoopExit, s1)" by simp
      show ?thesis unfolding eq using len Cons.prems(2) by simp
    next
      case cancelled
      then obtain e' where "wait_result r = WaitRaises e'"
        unfolding wait_is_cancelled_def by (auto split: wait_outcome.splits)
      with step cancelled have eq: "?run = (Propagated e', s1)" by simp
      show ?thesis unfolding eq using len Cons.prems(2) cancelled(3) by simp
    next
      case again
      with step have eq: "?run = scrape_loop loads store code_of ch (fs @ rest) s1" by simp
      from again(1) rc have b: "retry_count s1 \<le> max_retries" by simp
      from Cons.prems(3) rc have c: "retry_count s1 + length fs > max_retries" by simp
      from Cons.prems(1) have a: "\<forall>r\<in>set fs. fails_ordinarily loads store code_of ch r" by simp
      show ?thesis unfolding eq using Cons.IH [OF a b c] rc len by simp
    qed
  qed
qed

text \<open>
  Claim C7. For every channel, when the first N sessions of a supervision lifetime all
  end with an ordinary connection closure or another generic failure, and N exceeds the
  generic retry maximum of 10, the supervisor has ended after at most 11 sessions,
  whatever rounds would follow: it never starts another session. It ends by leaving its
  loop (Stopped) unless the task is cancelled from outside during a backoff wait, which
  ends it as well.
\<close>

theorem retry_budget_exhausted:
  assumes "length fs > max_retries"
      and "\<forall>r\<in>set fs. fails_ordinarily loads store code_of ch r"
  shows "fst (scrape_loop loads store code_of ch (fs @ rest) supervisor_init) \<noteq> OutOfScript
       \<and> length (sessions (snd (scrape_loop loads store code_of ch (fs @ rest) supervisor_init)))
            \<le> max_retries + 1
       \<and> ((\<forall>r\<in>set fs. \<not> wait_is_cancelled r)
            \<longrightarrow> fst (scrape_loop loads store code_of ch (fs @ rest) supervisor_init) = LoopExit)"
proof -
  have z: "retry_count supervisor_init = 0" "sessions supervisor_init = []"
    by (simp_all add: supervisor_init_def)
  from assms(1) z have "retry_count supervisor_init \<le> max_retries"
      "retry_count supervisor_init + length fs > max_retries" by simp_all
  from scrape_loop_exhausts [OF assms(2) this, of rest] z show ?thesis by simp
qed

text \<open>Claim C7 on eleven sessions closed with code 1006, followed by a round that would
  run a healthy session.\<close>

theorem retry_budget_exhausted_witness:
  "length (replicate 11 ordinary_round) > max_retries
   \<and> fails_ordinarily json_loads_examples store_ok websockets_code ''xqc'' ordinary_round
   \<and> \<not> wait_is_cancelled ordinary_round
   \<and> fst (scrape_loop json_loads_examples store_ok websockets_code ''xqc''
            (replicate 11 ordinary_round @ [healthy_round]) supervisor_init) = LoopExit
   \<and> length (sessions (snd (scrape_loop json_loads_examples store_ok websockets_code ''xqc''
            (replicate 11 ordinary_round @ [healthy_round]) supervisor_init))) \<le> 11"
proof -
  have l: "length (replicate 11 ordinary_round) > max_retries"
    by (simp add: max_retries_def)
  have f: "fails_ordinarily json_loads_examples store_ok websockets_code ''xqc'' ordinary_round"
    by code_simp
  have w: "\<not> wait_is_cancelled ordinary_round" by code_simp
  from f have a1: "\<forall>r\<in>set (replicate 11 ordinary_round).
         fails_ordinarily json_loads_examples store_ok websockets_code ''xqc'' r" by simp
  from w have a2: "\<forall>r\<in>set (replicate 11 ordinary_round). \<not> wait_is_cancelled r" by simp
  from retry_budget_exhausted [OF l a1, of "[healthy_round]"] a2 l f w
  show ?thesis by (simp add: max_retries_def)
qed


lemma lookup_fails_iff:
  "lookup_fails h \<longleftrightarrow> h = HttpTimeout \<or> (\<exists>status body. h = HttpResponse status body \<and> status \<noteq> 200)"
  by (cases h)
     (auto simp: lookup_fails_def get_channel_info_def handle_channel_response_def
           split: option.splits)








lemma undecodable_raises:
  assumes "undecodable loads raw"
  shows "process_message loads store ch raw s = (Some JSONDecodeError, s)"
proof (cases "loads raw")
  case None
  then show ?thesis by (simp add: process_message_def)
next
  case (Some m)
  with assms obtain kvs n d where m: "m = JObj kvs"
      and ev: "dict_get kvs ''event'' JNull = JStr n"
      and dt: "dict_get kvs ''data'' (JStr ''{}'') = JStr d"
      and n: "n \<notin> set IGNORED_EVENTS" "n \<in> set HANDLED_EVENTS" and d: "loads d = None"
    unfolding undecodable_def by (auto split: json.splits)
  from ev dt d have "parse_event loads kvs = Inl JSONDecodeError"
    by (simp add: parse_event_def)
  with Some m ev n show ?thesis
    by (simp add: process_message_def handle_websocket_message_def)
qed

lemma generic_failure_counts:
  "retry_count (snd (generic_failure sv)) = retry_count sv + 1"
  "connection_retry_count (snd (generic_failure sv)) = connection_retry_count sv"
  "fst (generic_failure sv) = GiveUp \<or> (\<exists>d. fst (generic_failure sv) = Backoff Generic d)"
  by (simp_all add: generic_failure_def Let_def)

text \<open>
  Claim C4, amended. For every incoming raw message that fails to decode (the wire text
  is not JSON, or the data string of a handled event is not JSON), the receive loop does
  not go on to the next message: the session ends by raising the decoding error, the
  error reaches the supervisor, and the supervisor counts it as a generic failure
  (its generic retry counter goes up by one).
\<close>

theorem decode_failure_ends_session:
  assumes "undecodable loads raw"
      and "\<not> stop_is_set t" and "recv_result t = RecvMessage raw"
      and "fst (keepalive t s) = None"
  shows "receive_loop loads store ch (t # ts) s = (Raised JSONDecodeError, snd (keepalive t s))
       \<and> handle_failure code_of JSONDecodeError sv = generic_failure sv
       \<and> retry_count (snd (handle_failure code_of JSONDecodeError sv)) = retry_count sv + 1"
proof -
  obtain s1 where ka: "keepalive t s = (None, s1)"
    using assms(4) by (cases "keepalive t s") simp
  from undecodable_raises [OF assms(1)]
  have "process_message loads store ch raw s1 = (Some JSONDecodeError, s1)" .
  with ka assms(3) have "iteration loads store ch t s = (Some JSONDecodeError, s1)"
    by (simp add: iteration_def)
  with assms(2) ka have a: "receive_loop loads store ch (t # ts) s
                              = (Raised JSONDecodeError, snd (keepalive t s))"
    by simp
  have b: "handle_failure code_of JSONDecodeError sv = generic_failure sv"
    by (simp add: handle_failure_def)
  from a b generic_failure_counts(1) [of sv] show ?thesis by simp
qed

text \<open>The amended claim C4 on the wire text \<open>''not json''\<close>, with a chat message waiting
  behind it.\<close>

theorem decode_failure_ends_session_witness:
  "undecodable json_loads_examples ''not json''
   \<and> \<not> stop_is_set (message_tick ''not json'')
   \<and> recv_result (message_tick ''not json'') = RecvMessage ''not json''
   \<and> fst (keepalive (message_tick ''not json'') (new_session 0)) = None
   \<and> fst (receive_loop json_loads_examples store_ok ''xqc''
             [message_tick ''not json'', message_tick chat_message_raw] (new_session 0))
        = Raised JSONDecodeError
   \<and> retry_count (snd (handle_failure websockets_code JSONDecodeError supervisor_init)) = 1"
proof -
  have a: "undecodable json_loads_examples ''not json''" by code_simp
  have b: "\<not> stop_is_set (message_tick ''not json'')" by (simp add: message_tick_def)
  have c: "recv_result (message_tick ''not json'') = RecvMessage ''not json''"
    by (simp add: message_tick_def)
  have d: "fst (keepalive (message_tick ''not json'') (new_session 0)) = None" by code_simp
  have z: "retry_count supervisor_init = 0" by (simp add: supervisor_init_def)
  note ends = decode_failure_ends_session [OF a b c d, where store = store_ok
      and ch = "''xqc''" and ts = "[message_tick chat_message_raw]"
      and code_of = websockets_code and sv = supervisor_init]
  from ends have "receive_loop json_loads_examples store_ok ''xqc''
             [message_tick ''not json'', message_tick chat_message_raw] (new_session 0)
        = (Raised JSONDecodeError, snd (keepalive (message_tick ''not json'') (new_session 0)))"
    by (rule conjunct1)
  then have e: "fst (receive_loop json_loads_examples store_ok ''xqc''
             [message_tick ''not json'', message_tick chat_message_raw] (new_session 0))
        = Raised JSONDecodeError"
    by (simp only: fst_conv)
  from ends have "retry_count (snd (handle_failure websockets_code JSONDecodeError supervisor_init))
        = retry_count supervisor_init + 1"
    by blast
  with z have f: "retry_count (snd (handle_failure websockets_code JSONDecodeError
        supervisor_init)) = 1"
    by (simp only: add_0)
  from a b c d e f show ?thesis by blast
qed

text \<open>
  Claim C4, as stated, on the wire text \<open>''not json''\<close>: the session ends with the
  decoding error, the chat message behind it is never stored, and the supervisor's generic
  retry counter is 1.
\<close>

theorem undecodable_message_is_counted:
  "fst (listen_to_chat json_loads_examples store_ok ''xqc''
          (session_of lookup_found [message_tick ''not json'', message_tick chat_message_raw]))
     = Raised JSONDecodeError
   \<and> store_calls (snd (listen_to_chat json_loads_examples store_ok ''xqc''
          (session_of lookup_found [message_tick ''not json'', message_tick chat_message_raw])))
     = []
   \<and> retry_count (snd (scrape_loop json_loads_examples store_ok websockets_code ''xqc''
        [round_of (session_of lookup_found
            [message_tick ''not json'', message_tick chat_message_raw])] supervisor_init)) = 1"
  by code_simp

text \<open>
  Claim C2 on sessions that each connect, subscribe, store one chat message and are then
  closed by the peer with code 1006. The counters are not reset between them: after two
  such sessions both counters are 2 and the second delay has doubled; after eleven the
  supervisor gives up, and the round that follows is never run.
\<close>

theorem counters_survive_successful_sessions:
  "messages_processed (snd (listen_to_chat json_loads_examples store_ok ''xqc''
                              (attempt chatty_round))) = 1
   \<and> length (store_calls (snd (listen_to_chat json_loads_examples store_ok ''xqc''
                              (attempt chatty_round)))) = 1
   \<and> retry_count (snd (scrape_loop json_loads_examples store_ok websockets_code ''xqc''
                         [chatty_round, chatty_round] supervisor_init)) = 2
   \<and> connection_retry_count (snd (scrape_loop json_loads_examples store_ok websockets_code ''xqc''
                         [chatty_round, chatty_round] supervisor_init)) = 2
   \<and> delays (snd (scrape_loop json_loads_examples store_ok websockets_code ''xqc''
                         [chatty_round, chatty_round] supervisor_init))
       = [(Generic, 2), (Generic, 4)]
   \<and> fst (scrape_loop json_loads_examples store_ok websockets_code ''xqc''
            (replicate 11 chatty_round @ [healthy_round]) supervisor_init) = LoopExit
   \<and> length (sessions (snd (scrape_loop json_loads_examples store_ok websockets_code ''xqc''
            (replicate 11 chatty_round @ [healthy_round]) supervisor_init))) = 11"
  by code_simp

text \<open>
  Claim C8 on three consecutive ping timeouts. The session raises a connection closure
  whose close frame 1011 is the one sent; no frame was received, so the library reports
  code 1006, and the supervisor takes the generic track: generic counter 1, delay 2.
\<close>

theorem ping_timeouts_take_generic_track:
  "fst (listen_to_chat json_loads_examples store_ok ''xqc''
          (session_of lookup_found
             [ping_timeout_tick 1201, ping_timeout_tick 2402, ping_timeout_tick 3603]))
     = Raised (ConnectionClosed None (Some (Close 1011 ''Ping timeout'')))
   \<and> websockets_code (ConnectionClosed None (Some (Close 1011 ''Ping timeout''))) = Some 1006
   \<and> retry_count (snd (scrape_loop json_loads_examples store_ok websockets_code ''xqc''
        [round_of (session_of lookup_found
            [ping_timeout_tick 1201, ping_timeout_tick 2402, ping_timeout_tick 3603])]
        supervisor_init)) = 1
   \<and> delays (snd (scrape_loop json_loads_examples store_ok websockets_code ''xqc''
        [round_of (session_of lookup_found
            [ping_timeout_tick 1201, ping_timeout_tick 2402, ping_timeout_tick 3603])]
        supervisor_init)) = [(Generic, 2)]"
  by code_simp

lemma third_ping_timeout_raises:
  assumes "current_time t - last_ping_time s > ping_interval"
      and "ping_result t = PingTimeout"
      and "consecutive_ping_failures s = 2"
  shows "fst (keepalive t s) = Some (ConnectionClosed None (Some (Close 1011 ''Ping timeout'')))"
  using assms by (simp add: keepalive_def max_ping_failures_def Let_def)

lemma severe_track_iff_code:
  "(\<exists>d. fst (handle_failure code_of (ConnectionClosed r c) s) = Backoff Severe d)
     \<longleftrightarrow> (code_of (ConnectionClosed r c) = Some 4200 \<or> code_of (ConnectionClosed r c) = Some 1011)
         \<and> connection_retry_count s + 1 \<le> max_connection_retries"
  by (auto simp: handle_failure_def generic_failure_def Let_def)

lemma scrape_channel_with_retry_registry:
  "snd (snd (scrape_channel_with_retry loads store code_of reg ch rounds))
     = (if fst (scrape_loop loads store code_of ch rounds supervisor_init) = LoopExit
        then remove_entry reg ch else reg)"
  unfolding scrape_channel_with_retry_def
  by (cases "scrape_loop loads store code_of ch rounds supervisor_init")
     (auto split: ending.splits)

lemma stop_channel_scraping_registry:
  assumes "active_tasks reg ch \<noteq> None"
  shows "snd (stop_channel_scraping loads store code_of reg ch rounds grace forced)
     = snd (snd (scrape_channel_with_retry loads store code_of
          (case stop_events reg ch of None \<Rightarrow> reg
           | Some ev \<Rightarrow> reg\<lparr>events_set := events_set reg @ [ev]\<rparr>) ch rounds))"
  using assms unfolding stop_channel_scraping_def Let_def
  by (auto split: await_outcome.splits exn.splits)

lemma clean_stop_removes_entry:
  assumes "active_tasks reg ch \<noteq> None"
      and "fst (scrape_loop loads store code_of ch rounds supervisor_init) = LoopExit"
  shows "supervision_entry (snd (stop_channel_scraping loads store code_of reg ch rounds
                                   grace forced)) ch = None"
  using assms
  by (simp add: stop_channel_scraping_registry scrape_channel_with_retry_registry
        remove_entry_def supervision_entry_def split: option.splits)

text \<open>
  Claim C3 on a task that is cancelled while it waits for a pong, after the grace period
  has run out. The cancellation leaves the coroutine as an exception, the removal at its
  end does not run, and the entry is still in the registry after the stop, whatever the
  second wait does; a later start finds it and creates no task.
\<close>

theorem forced_stop_leaves_entry:
  "fst (scrape_loop json_loads_examples store_ok websockets_code ''xqc''
          [round_of (session_of lookup_found [cancelled_ping_tick])] supervisor_init)
     = Propagated CancelledError
   \<and> supervision_entry
        (snd (stop_channel_scraping json_loads_examples store_ok websockets_code
                (snd (start_channel_scraping registry_init ''xqc'')) ''xqc''
                [round_of (session_of lookup_found [cancelled_ping_tick])]
                AwaitTimeout forced)) ''xqc'' = Some (1, 0)
   \<and> fst (start_channel_scraping
        (snd (stop_channel_scraping json_loads_examples store_ok websockets_code
                (snd (start_channel_scraping registry_init ''xqc'')) ''xqc''
                [round_of (session_of lookup_found [cancelled_ping_tick])]
                AwaitTimeout forced)) ''xqc'') = True
   \<and> tasks_created (snd (start_channel_scraping
        (snd (stop_channel_scraping json_loads_examples store_ok websockets_code
                (snd (start_channel_scraping registry_init ''xqc'')) ''xqc''
                [round_of (session_of lookup_found [cancelled_ping_tick])]
                AwaitTimeout forced)) ''xqc'')) ''xqc'' = 1"
proof -
  let ?rounds = "[round_of (session_of lookup_found [cancelled_ping_tick])]"
  let ?reg = "snd (start_channel_scraping registry_init ''xqc'')"
  have run: "fst (scrape_loop json_loads_examples store_ok websockets_code ''xqc''
                ?rounds supervisor_init) = Propagated CancelledError"
    by code_simp
  have act: "active_tasks ?reg ''xqc'' \<noteq> None"
    by (simp add: start_channel_scraping_def registry_init_def)
  have after: "snd (stop_channel_scraping json_loads_examples store_ok websockets_code
                     ?reg ''xqc'' ?rounds AwaitTimeout forced)
                 = ?reg\<lparr>events_set := [0]\<rparr>"
    by (simp only: stop_channel_scraping_registry [OF act] scrape_channel_with_retry_registry
          run)
       (simp add: start_channel_scraping_def registry_init_def)
  show ?thesis
    unfolding after
    using run
    by (simp add: start_channel_scraping_def registry_init_def supervision_entry_def
          tasks_created_def)
qed

end
